theory Spec2Isabelle
  imports Complex_Main
begin

section \<open>JavaScript values\<close>

text \<open>
  The values the client handles are what \<^verbatim>\<open>JSON.parse\<close> produces, plus \<^verbatim>\<open>undefined\<close>.
  A number is held by the exact rational value of its double (JSON has no NaN and no
  infinity; \<^verbatim>\<open>-0\<close> and \<^verbatim>\<open>0\<close> are both \<open>JNum 0\<close>, which the code cannot tell apart:
  it only tests truthiness and \<^verbatim>\<open>> 0\<close> and prints with \<^verbatim>\<open>toFixed\<close>).
  A string is the list of its UTF-16 code units, each a number below 65536;
  \<open>ascii\<close> writes one from a literal. An object is the list of its own properties, under
  names written as literals; a property is read at its first binding.
\<close>

type_synonym ustring = "nat list"

definition ascii :: "string \<Rightarrow> ustring" where
  "ascii s = map of_char s"

datatype jsval =
    JUndefined
  | JNull
  | JBool bool
  | JNum rat
  | JStr ustring
  | JArr "jsval list"
  | JObj "(string \<times> jsval) list"

datatype js_error = TypeError | RequestFailed "nat option"

text \<open>
  The outcome of evaluating an expression or running a statement: a value, a thrown
  error, or \<open>Unmodelled\<close> where the code reaches a conversion of JavaScript that this
  development does not describe (\<^verbatim>\<open>ToNumber\<close> of a string, an array or an object).
\<close>

datatype 'a outcome = Ok 'a | Throw js_error | Unmodelled

fun truthy :: "jsval \<Rightarrow> bool" where
  "truthy JUndefined = False"
| "truthy JNull = False"
| "truthy (JBool b) = b"
| "truthy (JNum r) = (r \<noteq> 0)"
| "truthy (JStr s) = (s \<noteq> [])"
| "truthy (JArr xs) = True"
| "truthy (JObj kvs) = True"

fun isArray :: "jsval \<Rightarrow> bool" where
  "isArray (JArr xs) = True"
| "isArray v = False"

fun nullish :: "jsval \<Rightarrow> bool" where
  "nullish JUndefined = True"
| "nullish JNull = True"
| "nullish v = False"

text \<open>
  \<^verbatim>\<open>v.k\<close> for the property names the client reads (\<^verbatim>\<open>books\<close>, \<^verbatim>\<open>length\<close>, \<^verbatim>\<open>title\<close>,
  \<^verbatim>\<open>author\<close>, \<^verbatim>\<open>genre\<close>, \<^verbatim>\<open>rating\<close>): none of them is an array index or a method of a
  prototype, so on an array or a string only \<^verbatim>\<open>length\<close> is defined, and on a number or
  a boolean nothing is. Reading a property of \<^verbatim>\<open>undefined\<close> or \<^verbatim>\<open>null\<close> throws.
\<close>

fun get_prop :: "jsval \<Rightarrow> string \<Rightarrow> jsval outcome" where
  "get_prop JUndefined k = Throw TypeError"
| "get_prop JNull k = Throw TypeError"
| "get_prop (JObj kvs) k = Ok (case map_of kvs k of None \<Rightarrow> JUndefined | Some v \<Rightarrow> v)"
| "get_prop (JArr xs) k = Ok (if k = ''length'' then JNum (of_nat (length xs)) else JUndefined)"
| "get_prop (JStr s) k = Ok (if k = ''length'' then JNum (of_nat (length s)) else JUndefined)"
| "get_prop (JBool b) k = Ok JUndefined"
| "get_prop (JNum r) k = Ok JUndefined"

text \<open>\<^verbatim>\<open>v?.k\<close>: the optional chain yields \<^verbatim>\<open>undefined\<close> on a nullish \<^verbatim>\<open>v\<close>.\<close>

definition get_prop_opt :: "jsval \<Rightarrow> string \<Rightarrow> jsval outcome" where
  "get_prop_opt v k = (if nullish v then Ok JUndefined else get_prop v k)"

text \<open>
  \<^verbatim>\<open>v > 0\<close>: \<^verbatim>\<open>undefined\<close> converts to NaN and \<^verbatim>\<open>null\<close> to 0 (both compare false),
  \<^verbatim>\<open>true\<close> to 1 and \<^verbatim>\<open>false\<close> to 0. The conversion of a string, an array or an object
  to a number is not modelled.
\<close>

fun gt_zero :: "jsval \<Rightarrow> bool outcome" where
  "gt_zero JUndefined = Ok False"
| "gt_zero JNull = Ok False"
| "gt_zero (JBool b) = Ok b"
| "gt_zero (JNum r) = Ok (0 < r)"
| "gt_zero (JStr s) = Unmodelled"
| "gt_zero (JArr xs) = Unmodelled"
| "gt_zero (JObj kvs) = Unmodelled"

section \<open>Page state and effects\<close>

text \<open>
  The state of the \<^verbatim>\<open>Books\<close> page (its four \<^verbatim>\<open>useState\<close> cells) together with what the
  page writes to the outside: the messages passed to \<^verbatim>\<open>toast.error\<close> and the lines
  written to the console, oldest first.
\<close>

datatype log_entry = ConsoleLog string "jsval list" | ConsoleError string js_error

record world =
  books :: jsval
  loading :: bool
  viewMode :: string
  searchTerm :: ustring
  toast_errors :: "string list"
  console :: "log_entry list"

text \<open>A statement runs in a world and leaves a world, also when it throws.\<close>

type_synonym 'a js = "world \<Rightarrow> 'a outcome \<times> world"

definition js_return :: "'a \<Rightarrow> 'a js" where
  "js_return x = (\<lambda>w. (Ok x, w))"

definition js_eval :: "'a outcome \<Rightarrow> 'a js" where
  "js_eval r = (\<lambda>w. (r, w))"

definition js_bind :: "'a js \<Rightarrow> ('a \<Rightarrow> 'b js) \<Rightarrow> 'b js" where
  "js_bind m f = (\<lambda>w. case m w of
       (Ok x, w') \<Rightarrow> f x w'
     | (Throw e, w') \<Rightarrow> (Throw e, w')
     | (Unmodelled, w') \<Rightarrow> (Unmodelled, w'))"

definition js_seq :: "unit js \<Rightarrow> 'b js \<Rightarrow> 'b js" where
  "js_seq m n = js_bind m (\<lambda>_. n)"

text \<open>\<^verbatim>\<open>try { body } catch (error) { handler }\<close>\<close>

definition js_try_catch :: "'a js \<Rightarrow> (js_error \<Rightarrow> 'a js) \<Rightarrow> 'a js" where
  "js_try_catch body handler = (\<lambda>w. case body w of
       (Throw e, w') \<Rightarrow> handler e w'
     | (r, w') \<Rightarrow> (r, w'))"

text \<open>
  \<^verbatim>\<open>try { body } finally { fin }\<close>: the finally block runs however the body ends; the
  body's outcome stands unless the finally block itself does not complete.
\<close>

definition js_finally :: "'a js \<Rightarrow> unit js \<Rightarrow> 'a js" where
  "js_finally body fin = (\<lambda>w. case body w of
       (Unmodelled, w') \<Rightarrow> (Unmodelled, w')
     | (r, w') \<Rightarrow> (case fin w' of
           (Ok u, w'') \<Rightarrow> (r, w'')
         | (Throw e, w'') \<Rightarrow> (Throw e, w'')
         | (Unmodelled, w'') \<Rightarrow> (Unmodelled, w'')))"

definition setBooks :: "jsval \<Rightarrow> unit js" where
  "setBooks v = (\<lambda>w. (Ok (), w\<lparr>books := v\<rparr>))"

definition setLoading :: "bool \<Rightarrow> unit js" where
  "setLoading b = (\<lambda>w. (Ok (), w\<lparr>loading := b\<rparr>))"

definition setSearchTerm :: "ustring \<Rightarrow> unit js" where
  "setSearchTerm s = (\<lambda>w. (Ok (), w\<lparr>searchTerm := s\<rparr>))"

definition toast_error :: "string \<Rightarrow> unit js" where
  "toast_error msg = (\<lambda>w. (Ok (), w\<lparr>toast_errors := toast_errors w @ [msg]\<rparr>))"

definition console_log :: "string \<Rightarrow> jsval list \<Rightarrow> unit js" where
  "console_log msg args = (\<lambda>w. (Ok (), w\<lparr>console := console w @ [ConsoleLog msg args]\<rparr>))"

definition console_error :: "string \<Rightarrow> js_error \<Rightarrow> unit js" where
  "console_error msg e = (\<lambda>w. (Ok (), w\<lparr>console := console w @ [ConsoleError msg e]\<rparr>))"

section \<open>The built-in dataset\<close>

text \<open>
  \<^verbatim>\<open>MOCK_BOOKS\<close> of \<^verbatim>\<open>pages/Books.jsx\<close>. The ratings are the doubles of the literals
  \<^verbatim>\<open>4.2\<close>, \<^verbatim>\<open>4.3\<close> and \<^verbatim>\<open>4.5\<close>, as fractions over \<open>2 ^ 50\<close>.
\<close>

definition rating_4_2 :: rat where
  "rating_4_2 = 4728779608739021 / 1125899906842624"

definition rating_4_3 :: rat where
  "rating_4_3 = 4841369599423283 / 1125899906842624"

definition rating_4_5 :: rat where
  "rating_4_5 = 9 / 2"

definition mock_book ::
  "nat \<Rightarrow> string \<Rightarrow> string \<Rightarrow> string \<Rightarrow> string \<Rightarrow> rat \<Rightarrow> string \<Rightarrow> nat \<Rightarrow> nat \<Rightarrow> string \<Rightarrow> jsval" where
  "mock_book i t a d c r g y p n = JObj
     [(''id'', JNum (of_nat i)), (''title'', JStr (ascii t)), (''author'', JStr (ascii a)),
      (''description'', JStr (ascii d)), (''cover_url'', JStr (ascii c)), (''rating'', JNum r),
      (''genre'', JStr (ascii g)), (''published_year'', JNum (of_nat y)),
      (''pages'', JNum (of_nat p)), (''isbn'', JStr (ascii n))]"

definition book_gatsby :: jsval where
  "book_gatsby = mock_book 1 ''The Great Gatsby'' ''F. Scott Fitzgerald''
     ''A story of decadence and idealism in the Jazz Age''
     ''https://m.media-amazon.com/images/I/71FTb9X6wsL._AC_UF1000,1000_QL80_.jpg''
     rating_4_2 ''Classic'' 1925 218 ''9780743273565''"

definition book_mockingbird :: jsval where
  "book_mockingbird = mock_book 2 ''To Kill a Mockingbird'' ''Harper Lee''
     ''A novel about racial injustice and moral growth''
     ''https://m.media-amazon.com/images/I/71FxgtFKcQL._AC_UF1000,1000_QL80_.jpg''
     rating_4_3 ''Fiction'' 1960 281 ''9780446310789''"

definition book_1984 :: jsval where
  "book_1984 = mock_book 3 ''1984'' ''George Orwell''
     ''A dystopian social science fiction novel''
     ''https://m.media-amazon.com/images/I/71kxa1-0mfL._AC_UF1000,1000_QL80_.jpg''
     rating_4_2 ''Dystopian'' 1949 328 ''9780451524935''"

definition book_pride :: jsval where
  "book_pride = mock_book 4 ''Pride and Prejudice'' ''Jane Austen''
     ''A romantic novel of manners''
     ''https://m.media-amazon.com/images/I/71Q1tPupKjL._AC_UF1000,1000_QL80_.jpg''
     rating_4_3 ''Romance'' 1813 432 ''9780141439518''"

definition book_hobbit :: jsval where
  "book_hobbit = mock_book 5 ''The Hobbit'' ''J.R.R. Tolkien''
     (''A fantasy novel about Bilbo Baggins'' @ [CHR 0x27] @ '' adventure'')
     ''https://m.media-amazon.com/images/I/710+HcoP38L._AC_UF1000,1000_QL80_.jpg''
     rating_4_3 ''Fantasy'' 1937 310 ''9780547928227''"

definition book_potter :: jsval where
  "book_potter = mock_book 6
     (''Harry Potter and the Philosopher'' @ [CHR 0x27] @ ''s Stone'') ''J.K. Rowling''
     ''The first book in the Harry Potter series''
     ''https://m.media-amazon.com/images/I/81iqZ2HHD-L._AC_UF1000,1000_QL80_.jpg''
     rating_4_5 ''Fantasy'' 1997 223 ''9780747532699''"

definition MOCK_BOOKS :: "jsval list" where
  "MOCK_BOOKS = [book_gatsby, book_mockingbird, book_1984, book_pride, book_hobbit, book_potter]"

section \<open>The catalog loader: fetchBooks\<close>

text \<open>
  What \<^verbatim>\<open>await booksAPI.getAll()\<close> gives: the promise is rejected with an error, or
  fulfilled with a response object, of which the loader reads \<^verbatim>\<open>data\<close>.
\<close>

record response =
  data :: jsval
  status :: nat

definition await :: "js_error + 'a \<Rightarrow> 'a js" where
  "await p = (case p of Inl e \<Rightarrow> js_eval (Throw e) | Inr x \<Rightarrow> js_return x)"

text \<open>\<^verbatim>\<open>response.data && Array.isArray(response.data) && response.data.length > 0\<close>\<close>

definition flat_condition :: "jsval \<Rightarrow> bool outcome" where
  "flat_condition d =
     (if \<not> truthy d then Ok False
      else if \<not> isArray d then Ok False
      else (case get_prop d ''length'' of
              Ok n \<Rightarrow> gt_zero n
            | Throw e \<Rightarrow> Throw e
            | Unmodelled \<Rightarrow> Unmodelled))"

text \<open>\<^verbatim>\<open>response.data?.books && response.data.books.length > 0\<close>\<close>

definition nested_condition :: "jsval \<Rightarrow> bool outcome" where
  "nested_condition d =
     (case get_prop_opt d ''books'' of
        Ok b \<Rightarrow>
          (if \<not> truthy b then Ok False
           else (case get_prop d ''books'' of
                   Ok b' \<Rightarrow> (case get_prop b' ''length'' of
                                Ok n \<Rightarrow> gt_zero n
                              | Throw e \<Rightarrow> Throw e
                              | Unmodelled \<Rightarrow> Unmodelled)
                 | Throw e \<Rightarrow> Throw e
                 | Unmodelled \<Rightarrow> Unmodelled))
      | Throw e \<Rightarrow> Throw e
      | Unmodelled \<Rightarrow> Unmodelled)"

definition fetchBooks_try :: "js_error + response \<Rightarrow> unit js" where
  "fetchBooks_try getAll =
     js_bind (await getAll) (\<lambda>response.
     js_bind (js_eval (flat_condition (data response))) (\<lambda>c1.
       if c1 then
         js_seq (setBooks (data response))
           (js_bind (js_eval (get_prop (data response) ''length'')) (\<lambda>n.
              console_log ''Loaded books from backend:'' [n]))
       else
         js_bind (js_eval (nested_condition (data response))) (\<lambda>c2.
           if c2 then
             js_bind (js_eval (get_prop (data response) ''books'')) (\<lambda>bs.
             js_seq (setBooks bs)
               (js_bind (js_eval (get_prop (data response) ''books'')) (\<lambda>bs'.
                js_bind (js_eval (get_prop bs' ''length'')) (\<lambda>n.
                  console_log ''Loaded books from backend (nested):'' [n]))))
           else
             js_seq (console_log ''Backend returned empty, using mock data'' [])
               (setBooks (JArr MOCK_BOOKS)))))"

definition fetchBooks_catch :: "js_error \<Rightarrow> unit js" where
  "fetchBooks_catch error =
     js_seq (console_error ''Failed to fetch books, using mock data:'' error)
       (js_seq (setBooks (JArr MOCK_BOOKS))
          (toast_error ''Using demo data. Backend connection failed.''))"

definition fetchBooks :: "js_error + response \<Rightarrow> unit js" where
  "fetchBooks getAll =
     js_finally (js_try_catch (fetchBooks_try getAll) fetchBooks_catch) (setLoading False)"

text \<open>
  The specification names three sources of a loaded catalog. The code has no such tag;
  the branch taken is visible in the line it writes to the console, and the source of a
  load is read from that line.
\<close>

datatype load_source = RemoteFlat | RemoteNested | Fallback

fun source_of_entry :: "log_entry \<Rightarrow> load_source option" where
  "source_of_entry (ConsoleLog msg args) =
     (if msg = ''Loaded books from backend:'' then Some RemoteFlat
      else if msg = ''Loaded books from backend (nested):'' then Some RemoteNested
      else if msg = ''Backend returned empty, using mock data'' then Some Fallback
      else None)"
| "source_of_entry (ConsoleError msg e) =
     (if msg = ''Failed to fetch books, using mock data:'' then Some Fallback else None)"

definition load_source_of :: "world \<Rightarrow> load_source option" where
  "load_source_of w = (if console w = [] then None else source_of_entry (last (console w)))"

text \<open>The page as it is mounted: \<^verbatim>\<open>useState([])\<close>, \<^verbatim>\<open>useState(true)\<close>, \<^verbatim>\<open>'grid'\<close>, \<^verbatim>\<open>''\<close>.\<close>

definition initial_world :: world where
  "initial_world = \<lparr>books = JArr [], loading = True, viewMode = ''grid'', searchTerm = [],
     toast_errors = [], console = []\<rparr>"

section \<open>The search filter: filteredBooks\<close>

text \<open>
  \<^verbatim>\<open>String.prototype.toLowerCase\<close> follows the Unicode default case conversion. It is
  written out here for the code units below 256, the Greek capitals U+0391 to U+03A9
  (U+03A2 is not a character), the Greek small letters U+03B1 to U+03C9 and the dotted
  capital I, U+0130. Among these the cased letters and the characters that the
  conversion looks through (the case-ignorable ones) are the following.
\<close>

definition modelled_unit :: "nat \<Rightarrow> bool" where
  "modelled_unit c =
     (c < 256 \<or> (913 \<le> c \<and> c \<le> 937 \<and> c \<noteq> 930) \<or> (945 \<le> c \<and> c \<le> 969) \<or> c = 304)"

definition is_cased :: "nat \<Rightarrow> bool" where
  "is_cased c =
     ((65 \<le> c \<and> c \<le> 90) \<or> (97 \<le> c \<and> c \<le> 122) \<or> c = 170 \<or> c = 181 \<or> c = 186
      \<or> (192 \<le> c \<and> c \<le> 214) \<or> (216 \<le> c \<and> c \<le> 246) \<or> (248 \<le> c \<and> c \<le> 255)
      \<or> (913 \<le> c \<and> c \<le> 929) \<or> (931 \<le> c \<and> c \<le> 937) \<or> (945 \<le> c \<and> c \<le> 969)
      \<or> c = 304)"

definition is_case_ignorable :: "nat \<Rightarrow> bool" where
  "is_case_ignorable c =
     (c = 39 \<or> c = 46 \<or> c = 58 \<or> c = 94 \<or> c = 96 \<or> c = 168 \<or> c = 173 \<or> c = 175
      \<or> c = 180 \<or> c = 183 \<or> c = 184)"

text \<open>
  The lower case of one code unit taken alone: the letters \<^verbatim>\<open>A\<close> to \<^verbatim>\<open>Z\<close> (65 to 90), the
  Latin-1 capitals (192 to 222, without the multiplication sign 215) and the Greek
  capitals move up by 32; the dotted capital I becomes \<^verbatim>\<open>i\<close>; every other unit stays.
\<close>

definition lower_simple :: "nat \<Rightarrow> nat" where
  "lower_simple c =
     (if (65 \<le> c \<and> c \<le> 90) \<or> (192 \<le> c \<and> c \<le> 222 \<and> c \<noteq> 215)
         \<or> (913 \<le> c \<and> c \<le> 937 \<and> c \<noteq> 930)
      then c + 32
      else if c = 304 then 105 else c)"

text \<open>In a string the dotted capital I becomes \<^verbatim>\<open>i\<close> followed by a combining dot, U+0307.\<close>

definition lower_unit :: "nat \<Rightarrow> ustring" where
  "lower_unit c = (if c = 304 then [105, 775] else [lower_simple c])"

text \<open>
  A capital sigma, U+03A3, becomes the final sigma U+03C2 when a cased letter stands
  before it and none after it, case-ignorable characters in between not counted;
  otherwise it becomes U+03C3. \<open>before\<close> is the text before the sigma, nearest unit first.
\<close>

definition meets_cased :: "ustring \<Rightarrow> bool" where
  "meets_cased us =
     (case dropWhile is_case_ignorable us of [] \<Rightarrow> False | c # rest \<Rightarrow> is_cased c)"

definition final_sigma :: "ustring \<Rightarrow> ustring \<Rightarrow> bool" where
  "final_sigma before after = (meets_cased before \<and> \<not> meets_cased after)"

fun lower_from :: "ustring \<Rightarrow> ustring \<Rightarrow> ustring" where
  "lower_from before [] = []"
| "lower_from before (c # rest) =
     (if c = 931 then [if final_sigma before rest then 962 else 963] else lower_unit c)
     @ lower_from (c # before) rest"

text \<open>
  \<^verbatim>\<open>s.toLowerCase()\<close>. For a string with a code unit outside the ones above, the result
  is what the case tables of the JavaScript engine give; those tables are the parameter
  \<open>tables\<close>, and every property below holds for all of them.
\<close>

definition toLowerCase :: "(ustring \<Rightarrow> ustring) \<Rightarrow> ustring \<Rightarrow> ustring" where
  "toLowerCase tables s = (if list_all modelled_unit s then lower_from [] s else tables s)"

text \<open>
  Closed examples need some tables; all their strings are made of the code units above,
  so the choice does not enter. \<open>no_tables\<close> leaves a string as it is.
\<close>

definition no_tables :: "ustring \<Rightarrow> ustring" where
  "no_tables s = s"

fun starts_with :: "ustring \<Rightarrow> ustring \<Rightarrow> bool" where
  "starts_with s [] = True"
| "starts_with [] (c # t) = False"
| "starts_with (a # s) (c # t) = (a = c \<and> starts_with s t)"

text \<open>\<^verbatim>\<open>s.includes(t)\<close>: \<^verbatim>\<open>t\<close> is found at some position of \<^verbatim>\<open>s\<close>, tried left to right.\<close>

fun str_includes :: "ustring \<Rightarrow> ustring \<Rightarrow> bool" where
  "str_includes [] t = (t = [])"
| "str_includes (a # s) t = (starts_with (a # s) t \<or> str_includes s t)"

text \<open>
  \<^verbatim>\<open>book.k?.toLowerCase().includes(searchTerm.toLowerCase())\<close>: reading \<^verbatim>\<open>k\<close> of a
  nullish \<^verbatim>\<open>book\<close> throws; a nullish field ends the chain with \<^verbatim>\<open>undefined\<close>; a field
  that is not a string has no \<^verbatim>\<open>toLowerCase\<close> method, and calling it throws.
\<close>

definition field_includes ::
  "(ustring \<Rightarrow> ustring) \<Rightarrow> jsval \<Rightarrow> string \<Rightarrow> ustring \<Rightarrow> jsval outcome" where
  "field_includes tables book k term =
     (case get_prop book k of
        Ok v \<Rightarrow>
          (if nullish v then Ok JUndefined
           else (case v of
                   JStr s \<Rightarrow>
                     Ok (JBool (str_includes (toLowerCase tables s) (toLowerCase tables term)))
                 | _ \<Rightarrow> Throw TypeError))
      | Throw e \<Rightarrow> Throw e
      | Unmodelled \<Rightarrow> Unmodelled)"

text \<open>\<^verbatim>\<open>a || b\<close>: \<^verbatim>\<open>b\<close> is evaluated only when \<^verbatim>\<open>a\<close> is falsy.\<close>

definition js_or :: "jsval outcome \<Rightarrow> jsval outcome \<Rightarrow> jsval outcome" where
  "js_or a b = (case a of
       Ok v \<Rightarrow> if truthy v then Ok v else b
     | Throw e \<Rightarrow> Throw e
     | Unmodelled \<Rightarrow> Unmodelled)"

definition book_matches :: "(ustring \<Rightarrow> ustring) \<Rightarrow> ustring \<Rightarrow> jsval \<Rightarrow> jsval outcome" where
  "book_matches tables term book =
     js_or (js_or (field_includes tables book ''title'' term)
                  (field_includes tables book ''author'' term))
       (field_includes tables book ''genre'' term)"

text \<open>
  \<^verbatim>\<open>Array.prototype.filter\<close>: a new array of the elements whose callback result is
  truthy, in order; the first callback that throws ends the call.
\<close>

fun array_filter :: "('a \<Rightarrow> jsval outcome) \<Rightarrow> 'a list \<Rightarrow> 'a list outcome" where
  "array_filter f [] = Ok []"
| "array_filter f (x # xs) =
     (case f x of
        Ok v \<Rightarrow> (case array_filter f xs of
                   Ok ys \<Rightarrow> Ok (if truthy v then x # ys else ys)
                 | Throw e \<Rightarrow> Throw e
                 | Unmodelled \<Rightarrow> Unmodelled)
      | Throw e \<Rightarrow> Throw e
      | Unmodelled \<Rightarrow> Unmodelled)"

text \<open>
  \<^verbatim>\<open>const filteredBooks = books.filter(book => ...)\<close>, computed at every render from the
  state; only an array has a \<^verbatim>\<open>filter\<close> method. It reads the world and writes nothing.
\<close>

definition filteredBooks :: "(ustring \<Rightarrow> ustring) \<Rightarrow> world \<Rightarrow> jsval list outcome" where
  "filteredBooks tables w =
     (case books w of
        JArr bs \<Rightarrow> array_filter (book_matches tables (searchTerm w)) bs
      | _ \<Rightarrow> Throw TypeError)"

subsection \<open>The filter in words\<close>

text \<open>The text of a field of a record, when the field is present.\<close>

definition text_field :: "jsval \<Rightarrow> string \<Rightarrow> ustring option" where
  "text_field book k = (case get_prop book k of Ok (JStr s) \<Rightarrow> Some s | _ \<Rightarrow> None)"

text \<open>
  As the specification words it: a field contains the term as a case-insensitive
  substring when some stretch of the field equals the term once every code unit of both
  is put in lower case.
\<close>

definition ci_substring :: "ustring \<Rightarrow> ustring \<Rightarrow> bool" where
  "ci_substring field term =
     (\<exists>pre mid suf. field = pre @ mid @ suf \<and> map lower_simple mid = map lower_simple term)"

definition field_contains :: "jsval \<Rightarrow> string \<Rightarrow> ustring \<Rightarrow> bool" where
  "field_contains book k term =
     (case text_field book k of None \<Rightarrow> False | Some s \<Rightarrow> ci_substring s term)"

definition record_matches :: "ustring \<Rightarrow> jsval \<Rightarrow> bool" where
  "record_matches term book =
     (field_contains book ''title'' term \<or> field_contains book ''author'' term
      \<or> field_contains book ''genre'' term)"

text \<open>
  As the code has it: a field matches when its lower-case form, as a whole string,
  includes the lower-case form of the term.
\<close>

definition field_lower_includes ::
  "(ustring \<Rightarrow> ustring) \<Rightarrow> jsval \<Rightarrow> string \<Rightarrow> ustring \<Rightarrow> bool" where
  "field_lower_includes tables book k term =
     (case text_field book k of
        None \<Rightarrow> False
      | Some s \<Rightarrow> str_includes (toLowerCase tables s) (toLowerCase tables term))"

definition record_lower_matches :: "(ustring \<Rightarrow> ustring) \<Rightarrow> ustring \<Rightarrow> jsval \<Rightarrow> bool" where
  "record_lower_matches tables term book =
     (field_lower_includes tables book ''title'' term
      \<or> field_lower_includes tables book ''author'' term
      \<or> field_lower_includes tables book ''genre'' term)"

definition has_text_field :: "jsval \<Rightarrow> bool" where
  "has_text_field book =
     (text_field book ''title'' \<noteq> None \<or> text_field book ''author'' \<noteq> None
      \<or> text_field book ''genre'' \<noteq> None)"

text \<open>
  A BookRecord: an object whose title, author and genre are each a string or absent
  (no such property, or \<^verbatim>\<open>null\<close>).
\<close>

fun field_ok :: "jsval option \<Rightarrow> bool" where
  "field_ok None = True"
| "field_ok (Some JUndefined) = True"
| "field_ok (Some JNull) = True"
| "field_ok (Some (JStr s)) = True"
| "field_ok (Some v) = False"

fun is_book_record :: "jsval \<Rightarrow> bool" where
  "is_book_record (JObj kvs) =
     (field_ok (map_of kvs ''title'') \<and> field_ok (map_of kvs ''author'')
      \<and> field_ok (map_of kvs ''genre''))"
| "is_book_record v = False"

text \<open>Strings of code units below 256 only, and records whose three fields are such.\<close>

definition latin1 :: "ustring \<Rightarrow> bool" where
  "latin1 s = list_all (\<lambda>c. c < 256) s"

definition latin1_field :: "jsval \<Rightarrow> string \<Rightarrow> bool" where
  "latin1_field book k = (case text_field book k of None \<Rightarrow> True | Some s \<Rightarrow> latin1 s)"

definition latin1_record :: "jsval \<Rightarrow> bool" where
  "latin1_record book =
     (latin1_field book ''title'' \<and> latin1_field book ''author'' \<and> latin1_field book ''genre'')"

text \<open>A record titled with the Greek word for street, in capitals: U+039F U+0394 U+039F U+03A3.\<close>

definition book_odos :: jsval where
  "book_odos = JObj [(''id'', JNum 1), (''title'', JStr [927, 916, 927, 931])]"

section \<open>The request interceptor of the HTTP client\<close>

text \<open>
  The configuration of a request: the header table and everything else (the URL, the
  method, and whatever further fields the record is extended with). \<^verbatim>\<open>localStorage\<close> is a
  table from keys to strings; \<^verbatim>\<open>getItem\<close> gives \<^verbatim>\<open>null\<close> for a key that is not stored.
\<close>

record request_config =
  url :: string
  http_method :: string
  headers :: "string \<rightharpoonup> string"

definition getItem :: "(string \<rightharpoonup> string) \<Rightarrow> string \<Rightarrow> string option" where
  "getItem storage k = storage k"

text \<open>A stored item as a value (\<open>None\<close> is \<^verbatim>\<open>null\<close>), and as a template literal prints it.\<close>

definition item_value :: "string option \<Rightarrow> jsval" where
  "item_value item = (case item of None \<Rightarrow> JNull | Some s \<Rightarrow> JStr (ascii s))"

definition item_text :: "string option \<Rightarrow> string" where
  "item_text item = (case item of None \<Rightarrow> ''null'' | Some s \<Rightarrow> s)"

definition request_interceptor ::
  "(string \<rightharpoonup> string) \<Rightarrow> 'a request_config_scheme \<Rightarrow> 'a request_config_scheme" where
  "request_interceptor localStorage config =
     (let token = getItem localStorage ''token'' in
      if truthy (item_value token)
      then config\<lparr>headers := (headers config)(''Authorization'' \<mapsto> ''Bearer '' @ item_text token)\<rparr>
      else config)"

text \<open>
  The request of \<^verbatim>\<open>booksAPI.getAll\<close>: \<^verbatim>\<open>api.get('/books')\<close> on the client created with the
  header \<^verbatim>\<open>Content-Type: application/json\<close>.
\<close>

definition books_request :: request_config where
  "books_request = \<lparr>url = ''/books'', http_method = ''get'',
     headers = [''Content-Type'' \<mapsto> ''application/json'']\<rparr>"

section \<open>The rating shown by BookCard\<close>

text \<open>\<^verbatim>\<open>book.rating || 4.0\<close>\<close>

definition rating_or_default :: "jsval \<Rightarrow> jsval outcome" where
  "rating_or_default book = js_or (get_prop book ''rating'') (Ok (JNum 4))"

fun digit_char :: "nat \<Rightarrow> char" where
  "digit_char n = char_of (48 + n)"

fun decimal :: "nat \<Rightarrow> string" where
  "decimal n = (if n < 10 then [digit_char n] else decimal (n div 10) @ [digit_char (n mod 10)])"

declare decimal.simps [simp del]

text \<open>
  \<^verbatim>\<open>x.toFixed(1)\<close> of a number: the sign, then the integer \<open>n\<close> nearest to ten times the
  magnitude (the larger one of two), written with its last digit after the point. From
  \<open>10 ^ 21\<close> on JavaScript prints the shortest decimal of the double instead, which is
  not modelled.
\<close>

definition toFixed1 :: "rat \<Rightarrow> string outcome" where
  "toFixed1 x =
     (if 10 ^ 21 \<le> \<bar>x\<bar> then Unmodelled
      else (let n = nat \<lfloor>\<bar>x\<bar> * 10 + 1 / 2\<rfloor> in
            Ok ((if x < 0 then ''-'' else []) @ decimal (n div 10) @ ''.'' @ decimal (n mod 10))))"

text \<open>
  \<^verbatim>\<open>{(book.rating || 4.0).toFixed(1)}\<close>: only a number has a \<^verbatim>\<open>toFixed\<close> method.
\<close>

definition rating_text :: "jsval \<Rightarrow> string outcome" where
  "rating_text book =
     (case rating_or_default book of
        Ok (JNum r) \<Rightarrow> toFixed1 r
      | Ok v \<Rightarrow> Throw TypeError
      | Throw e \<Rightarrow> Throw e
      | Unmodelled \<Rightarrow> Unmodelled)"

section \<open>Properties of the catalog loader\<close>

lemmas js_defs = js_return_def js_eval_def js_bind_def js_seq_def js_try_catch_def js_finally_def
  setBooks_def setLoading_def toast_error_def console_log_def console_error_def await_def

lemmas loader_defs = fetchBooks_def fetchBooks_try_def fetchBooks_catch_def
  flat_condition_def nested_condition_def get_prop_opt_def

text \<open>
  C1. When the response body is a non-empty array, the loader installs that array as
  the catalog (same records, same order), the load is a remote-flat one, the loading
  flag is cleared, and nothing is passed to \<^verbatim>\<open>toast.error\<close>.
\<close>

theorem fetchBooks_flat_array:
  assumes "data response = JArr bs" and "bs \<noteq> []"
  shows "fetchBooks (Inr response) w =
           (Ok (), w\<lparr>books := JArr bs, loading := False,
                     console := console w @
                       [ConsoleLog ''Loaded books from backend:'' [JNum (of_nat (length bs))]]\<rparr>)
         \<and> load_source_of (snd (fetchBooks (Inr response) w)) = Some RemoteFlat
         \<and> toast_errors (snd (fetchBooks (Inr response) w)) = toast_errors w"
proof -
  have run: "fetchBooks (Inr response) w =
           (Ok (), w\<lparr>books := JArr bs, loading := False,
                     console := console w @
                       [ConsoleLog ''Loaded books from backend:'' [JNum (of_nat (length bs))]]\<rparr>)"
    using assms by (simp add: loader_defs js_defs)
  show ?thesis
    unfolding run by (simp add: load_source_of_def)
qed

theorem fetchBooks_flat_array_witness:
  "fetchBooks (Inr \<lparr>data = JArr [JObj [(''id'', JNum 1), (''title'', JStr (ascii ''Dune'')),
        (''author'', JStr (ascii ''Herbert'')), (''genre'', JStr (ascii ''Sci-Fi''))]], status = 200\<rparr>) initial_world =
     (Ok (), initial_world\<lparr>books := JArr [JObj [(''id'', JNum 1), (''title'', JStr (ascii ''Dune'')),
        (''author'', JStr (ascii ''Herbert'')), (''genre'', JStr (ascii ''Sci-Fi''))]], loading := False,
        console := [ConsoleLog ''Loaded books from backend:'' [JNum 1]]\<rparr>)"
  using fetchBooks_flat_array [of "\<lparr>data = JArr [JObj [(''id'', JNum 1), (''title'', JStr (ascii ''Dune'')),
        (''author'', JStr (ascii ''Herbert'')), (''genre'', JStr (ascii ''Sci-Fi''))]], status = 200\<rparr>" _ initial_world]
  by (simp add: initial_world_def)

text \<open>
  C2. When the response body has a property \<^verbatim>\<open>books\<close> that is a non-empty array (such a
  body is an object, so it is not a flat array), the loader installs exactly
  \<^verbatim>\<open>body.books\<close> as the catalog, the load is a remote-nested one, the loading flag is
  cleared, and nothing is passed to \<^verbatim>\<open>toast.error\<close>.
\<close>

theorem fetchBooks_nested_books:
  assumes "get_prop (data response) ''books'' = Ok (JArr bs)" and "bs \<noteq> []"
  shows "fetchBooks (Inr response) w =
           (Ok (), w\<lparr>books := JArr bs, loading := False,
                     console := console w @
                       [ConsoleLog ''Loaded books from backend (nested):''
                          [JNum (of_nat (length bs))]]\<rparr>)
         \<and> load_source_of (snd (fetchBooks (Inr response) w)) = Some RemoteNested
         \<and> toast_errors (snd (fetchBooks (Inr response) w)) = toast_errors w"
proof -
  obtain kvs where d: "data response = JObj kvs"
    using assms(1) by (cases "data response") (auto split: if_splits)
  have run: "fetchBooks (Inr response) w =
           (Ok (), w\<lparr>books := JArr bs, loading := False,
                     console := console w @
                       [ConsoleLog ''Loaded books from backend (nested):''
                          [JNum (of_nat (length bs))]]\<rparr>)"
    using assms d by (simp add: loader_defs js_defs)
  show ?thesis
    unfolding run by (simp add: load_source_of_def)
qed

theorem fetchBooks_nested_books_witness:
  "fetchBooks (Inr \<lparr>data = JObj [(''total'', JNum 1), (''books'', JArr [book_hobbit])],
        status = 200\<rparr>) initial_world =
     (Ok (), initial_world\<lparr>books := JArr [book_hobbit], loading := False,
        console := [ConsoleLog ''Loaded books from backend (nested):'' [JNum 1]]\<rparr>)"
  using fetchBooks_nested_books [of "\<lparr>data = JObj [(''total'', JNum 1),
        (''books'', JArr [book_hobbit])], status = 200\<rparr>" "[book_hobbit]" initial_world]
  by (simp add: initial_world_def)

text \<open>
  Where neither condition of the loader holds, it installs the built-in dataset and
  passes nothing to \<^verbatim>\<open>toast.error\<close>; the bodies \<^verbatim>\<open>[]\<close>, \<^verbatim>\<open>{}\<close>, \<^verbatim>\<open>{books: []}\<close>, a missing
  body and the empty string are such bodies.
\<close>

lemma fetchBooks_silent_fallback:
  assumes "flat_condition (data response) = Ok False"
    and "nested_condition (data response) = Ok False"
  shows "fetchBooks (Inr response) w =
     (Ok (), w\<lparr>console := console w @ [ConsoleLog ''Backend returned empty, using mock data'' []],
               books := JArr MOCK_BOOKS, loading := False\<rparr>)"
  using assms by (simp add: fetchBooks_def fetchBooks_try_def js_defs)

lemma empty_shapes_fall_through:
  assumes "d \<in> {JArr [], JObj [], JObj [(''books'', JArr [])], JUndefined, JNull, JStr []}"
  shows "flat_condition d = Ok False \<and> nested_condition d = Ok False"
  using assms by (auto simp: flat_condition_def nested_condition_def get_prop_opt_def)

text \<open>
  C3. The claim has the loader install the built-in dataset for every successful
  response that carries no non-empty array, a \<^verbatim>\<open>books\<close> property of any non-array shape
  included. The second condition of the loader, unlike the first, does not ask
  \<^verbatim>\<open>Array.isArray\<close>: for the body \<^verbatim>\<open>{books: "abc"}\<close> the string has a positive length and
  is installed as the catalog.
\<close>

theorem fetchBooks_books_string:
  "fetchBooks (Inr \<lparr>data = JObj [(''books'', JStr (ascii ''abc''))], status = 200\<rparr>) initial_world =
     (Ok (), initial_world\<lparr>books := JStr (ascii ''abc''), loading := False,
        console := [ConsoleLog ''Loaded books from backend (nested):'' [JNum 3]]\<rparr>)
   \<and> books (snd (fetchBooks (Inr \<lparr>data = JObj [(''books'', JStr (ascii ''abc''))], status = 200\<rparr>)
        initial_world)) \<noteq> JArr MOCK_BOOKS"
  by (simp add: loader_defs js_defs initial_world_def ascii_def)

text \<open>
  C4. When the request fails (the awaited promise is rejected with any error), the
  loader installs the built-in dataset, passes exactly the message
  "Using demo data. Backend connection failed." to \<^verbatim>\<open>toast.error\<close>, clears the loading
  flag and completes normally: the error goes to the console and no further.
\<close>

theorem fetchBooks_failure:
  "fetchBooks (Inl e) w =
     (Ok (), w\<lparr>console := console w @ [ConsoleError ''Failed to fetch books, using mock data:'' e],
               books := JArr MOCK_BOOKS,
               toast_errors := toast_errors w @ [''Using demo data. Backend connection failed.''],
               loading := False\<rparr>)"
  by (simp add: loader_defs js_defs)

theorem fetchBooks_failure_witness:
  "fetchBooks (Inl (RequestFailed (Some 500))) initial_world =
     (Ok (), initial_world\<lparr>console :=
                 [ConsoleError ''Failed to fetch books, using mock data:'' (RequestFailed (Some 500))],
               books := JArr MOCK_BOOKS,
               toast_errors := [''Using demo data. Backend connection failed.''],
               loading := False\<rparr>)"
  using fetchBooks_failure [of "RequestFailed (Some 500)" initial_world]
  by (simp add: initial_world_def)

text \<open>Whatever the request gives, the loader itself never ends by throwing.\<close>

lemma fetchBooks_never_throws: "fst (fetchBooks getAll w) \<noteq> Throw e"
proof (cases "fetchBooks_try getAll w")
  case (Pair r w')
  then show ?thesis
    by (cases r) (simp_all add: fetchBooks_def fetchBooks_catch_def js_defs)
qed

text \<open>
  C10. The claim has every completed load end with the loading flag cleared and a
  non-empty list of records as the catalog. The flag is cleared, but for the body
  \<^verbatim>\<open>{books: "abc"}\<close> the catalog is a string, and the next render, which calls
  \<^verbatim>\<open>books.filter\<close>, throws a TypeError.
\<close>

theorem load_then_render_fails:
  "loading (snd (fetchBooks (Inr \<lparr>data = JObj [(''books'', JStr (ascii ''abc''))], status = 200\<rparr>)
       initial_world)) = False
   \<and> books (snd (fetchBooks (Inr \<lparr>data = JObj [(''books'', JStr (ascii ''abc''))], status = 200\<rparr>)
       initial_world)) = JStr (ascii ''abc'')
   \<and> filteredBooks tables (snd (fetchBooks (Inr \<lparr>data = JObj [(''books'', JStr (ascii ''abc''))], status = 200\<rparr>)
       initial_world)) = Throw TypeError"
  by (simp add: loader_defs js_defs initial_world_def filteredBooks_def ascii_def)

section \<open>Properties of the search filter\<close>

subsection \<open>The substring test\<close>

lemma starts_with_iff: "starts_with s t \<longleftrightarrow> (\<exists>suf. s = t @ suf)"
  by (induction s t rule: starts_with.induct) auto

lemma str_includes_iff: "str_includes s t \<longleftrightarrow> (\<exists>pre suf. s = pre @ t @ suf)"
proof (induction s)
  case Nil
  then show ?case by auto
next
  case (Cons a s)
  have "(\<exists>pre suf. a # s = pre @ t @ suf) \<longleftrightarrow>
        (\<exists>suf. a # s = t @ suf) \<or> (\<exists>pre suf. s = pre @ t @ suf)"
  proof
    assume "\<exists>pre suf. a # s = pre @ t @ suf"
    then obtain pre suf where eq: "a # s = pre @ t @ suf" by blast
    show "(\<exists>suf. a # s = t @ suf) \<or> (\<exists>pre suf. s = pre @ t @ suf)"
    proof (cases pre)
      case Nil
      with eq show ?thesis by auto
    next
      case (Cons p ps)
      with eq have "s = ps @ t @ suf" by simp
      then show ?thesis by blast
    qed
  next
    assume "(\<exists>suf. a # s = t @ suf) \<or> (\<exists>pre suf. s = pre @ t @ suf)"
    then show "\<exists>pre suf. a # s = pre @ t @ suf"
    proof
      assume "\<exists>suf. a # s = t @ suf"
      then obtain suf where "a # s = [] @ t @ suf" by auto
      then show ?thesis by blast
    next
      assume "\<exists>pre suf. s = pre @ t @ suf"
      then obtain pre suf where "a # s = (a # pre) @ t @ suf" by auto
      then show ?thesis by blast
    qed
  qed
  with Cons show ?case by (simp add: starts_with_iff)
qed

lemma map_split:
  assumes "map f xs = ys @ zs"
  shows "\<exists>us vs. xs = us @ vs \<and> map f us = ys \<and> map f vs = zs"
  using assms map_eq_append_conv [of f xs ys zs] by auto

subsection \<open>Lower case on code units below 256\<close>

text \<open>
  Below 256 there is no sigma and no dotted capital I: the lower case of a string is
  the lower case of its code units, one by one.
\<close>

lemma lower_from_latin1:
  "list_all (\<lambda>c. c < 256) s \<Longrightarrow> lower_from before s = map lower_simple s"
  by (induction s arbitrary: before) (simp_all add: lower_unit_def)

lemma latin1_modelled: "latin1 s \<Longrightarrow> list_all modelled_unit s"
  by (simp add: latin1_def list_all_iff modelled_unit_def)

lemma toLowerCase_latin1: "latin1 s \<Longrightarrow> toLowerCase tables s = map lower_simple s"
  using lower_from_latin1 [of s "[]"] by (simp add: toLowerCase_def latin1_modelled latin1_def)

lemma toLowerCase_empty: "toLowerCase tables [] = []"
  by (simp add: toLowerCase_def)

lemma latin1_ascii: "latin1 (ascii s)"
  by (simp add: latin1_def ascii_def list_all_iff)

lemma includes_lower_iff:
  assumes "latin1 s" and "latin1 t"
  shows "str_includes (toLowerCase tables s) (toLowerCase tables t) \<longleftrightarrow> ci_substring s t"
proof
  assume "str_includes (toLowerCase tables s) (toLowerCase tables t)"
  then obtain pre suf where "map lower_simple s = pre @ map lower_simple t @ suf"
    unfolding str_includes_iff toLowerCase_latin1 [OF assms(1)] toLowerCase_latin1 [OF assms(2)]
    by blast
  then obtain p ms where s: "s = p @ ms"
    and ms: "map lower_simple ms = map lower_simple t @ suf"
    using map_split by blast
  from ms obtain m q where "ms = m @ q" and "map lower_simple m = map lower_simple t"
    using map_split by blast
  with s show "ci_substring s t"
    unfolding ci_substring_def by blast
next
  assume "ci_substring s t"
  then obtain pre mid suf where "s = pre @ mid @ suf" and "map lower_simple mid = map lower_simple t"
    unfolding ci_substring_def by blast
  then have "map lower_simple s = map lower_simple pre @ map lower_simple t @ map lower_simple suf"
    by simp
  then show "str_includes (toLowerCase tables s) (toLowerCase tables t)"
    unfolding str_includes_iff toLowerCase_latin1 [OF assms(1)] toLowerCase_latin1 [OF assms(2)]
    by blast
qed

lemma ci_substring_literal: "ci_substring (pre @ t @ suf) t"
  unfolding ci_substring_def by blast

subsection \<open>The filter on a catalog of records\<close>

lemma field_includes_object:
  assumes "field_ok (map_of kvs k)"
  shows "field_includes tables (JObj kvs) k t =
    (case text_field (JObj kvs) k of
       None \<Rightarrow> Ok JUndefined
     | Some s \<Rightarrow> Ok (JBool (str_includes (toLowerCase tables s) (toLowerCase tables t))))"
proof (cases "map_of kvs k")
  case None
  then show ?thesis by (simp add: field_includes_def text_field_def)
next
  case (Some v)
  with assms show ?thesis
    by (cases v) (simp_all add: field_includes_def text_field_def)
qed

lemma book_matches_record:
  assumes "is_book_record b"
  shows "\<exists>v. book_matches tables t b = Ok v \<and> truthy v = record_lower_matches tables t b"
proof -
  obtain kvs where b: "b = JObj kvs"
    using assms by (cases b) auto
  have ok: "field_ok (map_of kvs ''title'')" "field_ok (map_of kvs ''author'')"
    "field_ok (map_of kvs ''genre'')"
    using assms b by auto
  show ?thesis
    unfolding b book_matches_def record_lower_matches_def field_lower_includes_def js_or_def
      field_includes_object [OF ok(1)] field_includes_object [OF ok(2)]
      field_includes_object [OF ok(3)]
    by (auto split: option.splits)
qed

lemma array_filter_records:
  assumes "list_all is_book_record bs"
  shows "array_filter (book_matches tables t) bs = Ok (filter (record_lower_matches tables t) bs)"
  using assms
proof (induction bs)
  case Nil
  then show ?case by simp
next
  case (Cons b bs)
  then obtain v where "book_matches tables t b = Ok v"
    and "truthy v = record_lower_matches tables t b"
    using book_matches_record [of b tables t] by auto
  with Cons show ?case by simp
qed

lemma array_filter_keeps:
  "array_filter f xs = Ok ys \<Longrightarrow> y \<in> set ys \<Longrightarrow> \<exists>v. f y = Ok v \<and> truthy v"
proof (induction xs arbitrary: ys)
  case Nil
  then show ?case by simp
next
  case (Cons x xs)
  then show ?case
    by (auto split: outcome.splits if_splits)
qed

lemma array_filter_all_kept:
  "\<forall>y \<in> set ys. \<exists>v. f y = Ok v \<and> truthy v \<Longrightarrow> array_filter f ys = Ok ys"
  by (induction ys) auto

lemma array_filter_idem: "array_filter f xs = Ok ys \<Longrightarrow> array_filter f ys = Ok ys"
  using array_filter_keeps [of f xs ys] array_filter_all_kept [of ys f] by blast

lemma record_lower_matches_latin1:
  assumes "latin1 t" and "latin1_record b"
  shows "record_lower_matches tables t b = record_matches t b"
  using assms
  by (auto simp: record_lower_matches_def record_matches_def field_lower_includes_def
      field_contains_def latin1_record_def latin1_field_def includes_lower_iff
      split: option.splits)

lemma record_lower_matches_empty: "record_lower_matches tables [] = has_text_field"
  by (rule ext)
    (auto simp: record_lower_matches_def has_text_field_def field_lower_includes_def
      toLowerCase_empty str_includes_iff split: option.splits)

lemma filteredBooks_again:
  assumes "filteredBooks tables w = Ok r"
  shows "filteredBooks tables (w\<lparr>books := JArr r\<rparr>) = Ok r"
proof (cases "books w")
  case (JArr bs)
  with assms show ?thesis
    by (simp add: filteredBooks_def array_filter_idem)
qed (use assms in \<open>simp_all add: filteredBooks_def\<close>)

lemmas mock_defs = MOCK_BOOKS_def book_gatsby_def book_mockingbird_def book_1984_def
  book_pride_def book_hobbit_def book_potter_def mock_book_def

lemmas lower_eval = toLowerCase_def modelled_unit_def lower_unit_def lower_simple_def
  final_sigma_def meets_cased_def is_cased_def is_case_ignorable_def ascii_def

lemmas filter_eval = filteredBooks_def book_matches_def field_includes_def js_or_def

lemmas words_eval = record_lower_matches_def field_lower_includes_def text_field_def

text \<open>
  C5. The claim has the filter return exactly the records of which the title, the
  author or the genre contains the search term as a case-insensitive substring. The
  code compares the lower-case forms of the whole strings, and a capital sigma at the
  end of a word becomes a final sigma: the record titled U+039F U+0394 U+039F U+03A3
  contains the term U+03A3 as it is written, and the filter drops it.
\<close>

theorem filteredBooks_final_sigma:
  "is_book_record book_odos
   \<and> text_field book_odos ''title'' = Some ([927, 916, 927] @ [931] @ [])
   \<and> record_matches [931] book_odos
   \<and> toLowerCase no_tables [927, 916, 927, 931] = [959, 948, 959, 962]
   \<and> toLowerCase no_tables [931] = [963]
   \<and> filteredBooks no_tables (initial_world\<lparr>books := JArr [book_odos], searchTerm := [931]\<rparr>) = Ok []
   \<and> filteredBooks no_tables (initial_world\<lparr>books := JArr [book_odos], searchTerm := [931]\<rparr>)
       \<noteq> Ok (filter (record_matches [931]) [book_odos])"
proof -
  have title: "text_field book_odos ''title'' = Some ([927, 916, 927] @ [931] @ [])"
    by (simp add: book_odos_def text_field_def)
  have "ci_substring ([927, 916, 927] @ [931] @ []) [931]"
    by (rule ci_substring_literal)
  with title have hit: "record_matches [931] book_odos"
    by (simp add: record_matches_def field_contains_def)
  have run: "filteredBooks no_tables
      (initial_world\<lparr>books := JArr [book_odos], searchTerm := [931]\<rparr>) = Ok []"
    by (simp add: filter_eval initial_world_def book_odos_def lower_eval)
  have low: "toLowerCase no_tables [927, 916, 927, 931] = [959, 948, 959, 962]
      \<and> toLowerCase no_tables [931] = [963]"
    by (simp add: lower_eval)
  have rec: "is_book_record book_odos"
    by (simp add: book_odos_def)
  from rec title hit run low show ?thesis by simp
qed

text \<open>
  C5, as the code has it. On a catalog of book records the filter returns exactly the
  records of which the title, the author or the genre, put in lower case by
  \<^verbatim>\<open>toLowerCase\<close>, includes the search term put in lower case, in their order in the
  catalog. When the term and the three fields of every record are made of code units
  below 256, these are exactly the records of which one of the three fields contains
  the term as a case-insensitive substring. A field that is absent never matches: the
  test on it yields \<^verbatim>\<open>undefined\<close>. The filter is a function of the state and returns a new
  list; the catalog in the state is not written.
\<close>

theorem filteredBooks_lower_includes:
  assumes "books w = JArr bs" and "list_all is_book_record bs"
  shows "filteredBooks tables w = Ok (filter (record_lower_matches tables (searchTerm w)) bs)
       \<and> (latin1 (searchTerm w) \<and> list_all latin1_record bs
            \<longrightarrow> filteredBooks tables w = Ok (filter (record_matches (searchTerm w)) bs))
       \<and> (\<forall>b k v. get_prop b k = Ok v \<and> nullish v
             \<longrightarrow> field_includes tables b k (searchTerm w) = Ok JUndefined)"
proof -
  have run: "filteredBooks tables w = Ok (filter (record_lower_matches tables (searchTerm w)) bs)"
    using assms by (simp add: filteredBooks_def array_filter_records)
  have "filter (record_lower_matches tables (searchTerm w)) bs
      = filter (record_matches (searchTerm w)) bs"
    if "latin1 (searchTerm w)" and "list_all latin1_record bs"
    using that by (intro filter_cong) (simp_all add: list_all_iff record_lower_matches_latin1)
  with run show ?thesis
    by (simp add: field_includes_def)
qed

theorem filteredBooks_lower_includes_witness:
  "filteredBooks no_tables (initial_world\<lparr>books := JArr MOCK_BOOKS, searchTerm := ascii ''tolkien''\<rparr>)
     = Ok [book_hobbit]
   \<and> filter (record_matches (ascii ''tolkien'')) MOCK_BOOKS = [book_hobbit]
   \<and> filteredBooks no_tables (initial_world\<lparr>books := JArr [book_odos], searchTerm := [962]\<rparr>)
     = Ok [book_odos]
   \<and> field_includes no_tables (JObj [(''id'', JNum 7)]) ''title'' (ascii ''tolkien'') = Ok JUndefined"
proof -
  let ?w = "initial_world\<lparr>books := JArr MOCK_BOOKS, searchTerm := ascii ''tolkien''\<rparr>"
  let ?g = "initial_world\<lparr>books := JArr [book_odos], searchTerm := [962]\<rparr>"
  have recs: "list_all is_book_record MOCK_BOOKS"
    by (simp add: mock_defs)
  have plain: "list_all latin1_record MOCK_BOOKS \<and> latin1 (ascii ''tolkien'')"
    by (simp add: mock_defs latin1_record_def latin1_field_def text_field_def latin1_ascii)
  have hit: "filter (record_lower_matches no_tables (ascii ''tolkien'')) MOCK_BOOKS = [book_hobbit]"
    by (simp add: words_eval mock_defs lower_eval)
  have greek: "is_book_record book_odos
      \<and> filter (record_lower_matches no_tables [962]) [book_odos] = [book_odos]"
    by (simp add: words_eval book_odos_def lower_eval)
  have absent: "get_prop (JObj [(''id'', JNum 7)]) ''title'' = Ok JUndefined \<and> nullish JUndefined"
    by simp
  have a1: "filteredBooks no_tables ?w = Ok [book_hobbit]"
    using filteredBooks_lower_includes [of ?w MOCK_BOOKS no_tables] recs hit by simp
  have sel: "books ?w = JArr MOCK_BOOKS" "searchTerm ?w = ascii ''tolkien''"
    by simp_all
  have a2: "filteredBooks no_tables ?w = Ok (filter (record_matches (ascii ''tolkien'')) MOCK_BOOKS)"
    using filteredBooks_lower_includes [OF sel(1) recs, of no_tables] plain
    unfolding sel(2) by blast
  have a3: "field_includes no_tables (JObj [(''id'', JNum 7)]) ''title'' (ascii ''tolkien'')
      = Ok JUndefined"
    using filteredBooks_lower_includes [of ?w MOCK_BOOKS no_tables] recs absent by simp
  have b: "filteredBooks no_tables ?g = Ok [book_odos]"
    using filteredBooks_lower_includes [of ?g "[book_odos]" no_tables] greek by simp
  from a1 a2 have "filter (record_matches (ascii ''tolkien'')) MOCK_BOOKS = [book_hobbit]"
    by simp
  with a1 a3 b show ?thesis by simp
qed

text \<open>
  C6. The claim has the empty search term return every catalog unchanged. A record
  with no title, no author and no genre matches no term, the empty one included, and is
  dropped.
\<close>

theorem filteredBooks_empty_term_drops:
  "is_book_record (JObj [(''id'', JNum 7)])
   \<and> filteredBooks no_tables
        (initial_world\<lparr>books := JArr [JObj [(''id'', JNum 7)]], searchTerm := []\<rparr>) = Ok []
   \<and> filteredBooks no_tables
        (initial_world\<lparr>books := JArr [JObj [(''id'', JNum 7)]], searchTerm := []\<rparr>)
       \<noteq> Ok [JObj [(''id'', JNum 7)]]"
  by (simp add: filter_eval initial_world_def)

text \<open>
  C6, as the code has it. With the empty search term the filter returns exactly the
  records that have a title, an author or a genre, in their order; on a catalog in
  which every record has one of the three it returns the whole catalog.
\<close>

theorem filteredBooks_empty_term:
  assumes "books w = JArr bs" and "list_all is_book_record bs" and "searchTerm w = []"
  shows "filteredBooks tables w = Ok (filter has_text_field bs)
       \<and> (list_all has_text_field bs \<longrightarrow> filteredBooks tables w = Ok bs)"
proof -
  have run: "filteredBooks tables w = Ok (filter has_text_field bs)"
    using assms by (simp add: filteredBooks_def array_filter_records record_lower_matches_empty)
  have "list_all has_text_field bs \<Longrightarrow> filter has_text_field bs = bs"
    by (simp add: list_all_iff)
  with run show ?thesis by simp
qed

theorem filteredBooks_empty_term_witness:
  "filteredBooks no_tables (initial_world\<lparr>books := JArr MOCK_BOOKS\<rparr>) = Ok MOCK_BOOKS
   \<and> filteredBooks no_tables
        (initial_world\<lparr>books := JArr [JObj [(''id'', JNum 7)], book_hobbit]\<rparr>)
       = Ok [book_hobbit]"
proof -
  have a: "list_all is_book_record MOCK_BOOKS \<and> list_all has_text_field MOCK_BOOKS
         \<and> filter has_text_field MOCK_BOOKS = MOCK_BOOKS"
    by (simp add: mock_defs has_text_field_def text_field_def)
  have b: "list_all is_book_record [JObj [(''id'', JNum 7)], book_hobbit]
         \<and> filter has_text_field [JObj [(''id'', JNum 7)], book_hobbit] = [book_hobbit]"
    by (simp add: mock_defs has_text_field_def text_field_def)
  have full: "filteredBooks no_tables (initial_world\<lparr>books := JArr MOCK_BOOKS\<rparr>) = Ok MOCK_BOOKS"
    using filteredBooks_empty_term [of "initial_world\<lparr>books := JArr MOCK_BOOKS\<rparr>" MOCK_BOOKS
        no_tables] a
    by (simp add: initial_world_def)
  have part: "filteredBooks no_tables
        (initial_world\<lparr>books := JArr [JObj [(''id'', JNum 7)], book_hobbit]\<rparr>) = Ok [book_hobbit]"
    using filteredBooks_empty_term [of "initial_world\<lparr>books := JArr [JObj [(''id'', JNum 7)], book_hobbit]\<rparr>"
        "[JObj [(''id'', JNum 7)], book_hobbit]" no_tables] b
    by (simp add: initial_world_def)
  from full part show ?thesis by simp
qed

text \<open>
  C7. Filtering is idempotent: on a catalog of book records the filter returns a list,
  and filtering that list by the same term returns it again.
\<close>

theorem filteredBooks_idempotent:
  assumes "books w = JArr bs" and "list_all is_book_record bs"
  shows "\<exists>r. filteredBooks tables w = Ok r \<and> filteredBooks tables (w\<lparr>books := JArr r\<rparr>) = Ok r"
proof -
  have run: "filteredBooks tables w = Ok (filter (record_lower_matches tables (searchTerm w)) bs)"
    using assms by (simp add: filteredBooks_def array_filter_records)
  then have "array_filter (book_matches tables (searchTerm w)) bs
      = Ok (filter (record_lower_matches tables (searchTerm w)) bs)"
    using assms by (simp add: filteredBooks_def)
  then have "filteredBooks tables
      (w\<lparr>books := JArr (filter (record_lower_matches tables (searchTerm w)) bs)\<rparr>)
      = Ok (filter (record_lower_matches tables (searchTerm w)) bs)"
    by (simp add: filteredBooks_def array_filter_idem)
  with run show ?thesis by blast
qed

theorem filteredBooks_idempotent_witness:
  "filteredBooks no_tables (initial_world\<lparr>books := JArr MOCK_BOOKS, searchTerm := ascii ''FANTASY''\<rparr>)
     = Ok [book_hobbit, book_potter]
   \<and> filteredBooks no_tables
        (initial_world\<lparr>books := JArr [book_hobbit, book_potter], searchTerm := ascii ''FANTASY''\<rparr>)
     = Ok [book_hobbit, book_potter]"
proof -
  have recs: "list_all is_book_record MOCK_BOOKS"
    by (simp add: mock_defs)
  have run: "filteredBooks no_tables
      (initial_world\<lparr>books := JArr MOCK_BOOKS, searchTerm := ascii ''FANTASY''\<rparr>)
     = Ok [book_hobbit, book_potter]"
    by (simp add: filter_eval initial_world_def mock_defs lower_eval)
  show ?thesis
    using filteredBooks_idempotent [of "initial_world\<lparr>books := JArr MOCK_BOOKS,
        searchTerm := ascii ''FANTASY''\<rparr>" MOCK_BOOKS no_tables] recs run
    by (auto simp: initial_world_def)
qed

section \<open>Properties of the request interceptor\<close>

text \<open>
  C8. The claim has every stored credential string attached. The interceptor tests the
  stored item for truthiness, and the empty string is falsy: with the empty string
  stored under \<^verbatim>\<open>token\<close> no Authorization header is set.
\<close>

theorem request_interceptor_empty_token:
  "[''token'' \<mapsto> ''''] ''token'' = Some ''''
   \<and> headers (request_interceptor [''token'' \<mapsto> ''''] books_request) ''Authorization'' = None"
  by (simp add: request_interceptor_def getItem_def item_value_def books_request_def ascii_def)

text \<open>
  C8, as the code has it. When a non-empty string is stored under \<^verbatim>\<open>token\<close>, the
  interceptor returns the configuration with the header Authorization set to
  \<^verbatim>\<open>Bearer\<close>, a space and the token, and nothing else changed. When nothing or the empty
  string is stored, it returns the configuration as it is.
\<close>

theorem request_interceptor_bearer:
  "(localStorage ''token'' = Some t \<and> t \<noteq> []
      \<longrightarrow> request_interceptor localStorage config =
            config\<lparr>headers := (headers config)(''Authorization'' \<mapsto> ''Bearer '' @ t)\<rparr>)
   \<and> (localStorage ''token'' = None \<or> localStorage ''token'' = Some []
      \<longrightarrow> request_interceptor localStorage config = config)"
  by (auto simp: request_interceptor_def getItem_def item_value_def item_text_def ascii_def)

theorem request_interceptor_bearer_witness:
  "request_interceptor [''token'' \<mapsto> ''abc123''] books_request =
     books_request\<lparr>headers := [''Content-Type'' \<mapsto> ''application/json'',
        ''Authorization'' \<mapsto> ''Bearer abc123'']\<rparr>
   \<and> request_interceptor Map.empty books_request = books_request"
  using request_interceptor_bearer [of "[''token'' \<mapsto> ''abc123'']" "''abc123''" books_request]
    request_interceptor_bearer [of Map.empty _ books_request]
  by (simp add: books_request_def)

section \<open>Properties of the rating shown by BookCard\<close>

lemma floor_rat_numeral_divide:
  "\<lfloor>(numeral a :: rat) / numeral b\<rfloor> = numeral a div numeral b"
  using floor_divide_of_int_eq [of "numeral a" "numeral b", where ?'a = rat] by simp

lemmas toFixed_eval = toFixed1_def decimal.simps Let_def char_of_def bit_Suc_0_iff
  floor_rat_numeral_divide

lemma toFixed1_four: "toFixed1 4 = Ok ''4.0''"
  by (simp add: toFixed_eval)

text \<open>
  C9. The claim has a rating that is present shown as it is, for any value from 0 to 5.
  The card takes the default for every falsy rating: a record with the rating 0 is shown
  with \<^verbatim>\<open>4.0\<close>, not \<^verbatim>\<open>0.0\<close>.
\<close>

theorem rating_zero_shown_as_default:
  "get_prop (JObj [(''title'', JStr (ascii ''Dune'')), (''rating'', JNum 0)]) ''rating'' = Ok (JNum 0)
   \<and> rating_or_default (JObj [(''title'', JStr (ascii ''Dune'')), (''rating'', JNum 0)]) = Ok (JNum 4)
   \<and> rating_text (JObj [(''title'', JStr (ascii ''Dune'')), (''rating'', JNum 0)]) = Ok ''4.0''
   \<and> toFixed1 0 = Ok ''0.0''"
  by (simp add: rating_text_def rating_or_default_def js_or_def toFixed_eval)

text \<open>
  C9, as the code has it. When the rating of the record is a number other than 0, the
  card shows that number, printed by \<^verbatim>\<open>toFixed(1)\<close>: for a rating above 0 and up to 5 that is
  the rating rounded to the nearest tenth (a half goes up), with one digit after the
  point. When the rating is absent, \<^verbatim>\<open>null\<close>, 0 or another falsy value, the card shows
  \<^verbatim>\<open>4.0\<close>.
\<close>

theorem rating_text_shown:
  "(get_prop book ''rating'' = Ok (JNum r) \<and> r \<noteq> 0
      \<longrightarrow> rating_or_default book = Ok (JNum r) \<and> rating_text book = toFixed1 r)
   \<and> (get_prop book ''rating'' = Ok (JNum r) \<and> 0 < r \<and> r \<le> 5
      \<longrightarrow> rating_text book =
            Ok (decimal (nat \<lfloor>r * 10 + 1 / 2\<rfloor> div 10) @ ''.'' @
                decimal (nat \<lfloor>r * 10 + 1 / 2\<rfloor> mod 10)))
   \<and> (get_prop book ''rating'' = Ok v \<and> \<not> truthy v
      \<longrightarrow> rating_or_default book = Ok (JNum 4) \<and> rating_text book = Ok ''4.0'')"
proof -
  have "toFixed1 r = Ok (decimal (nat \<lfloor>r * 10 + 1 / 2\<rfloor> div 10) @ ''.'' @
                decimal (nat \<lfloor>r * 10 + 1 / 2\<rfloor> mod 10))"
    if "0 < r" and "r \<le> 5"
  proof -
    have "\<bar>r\<bar> = r" and "\<not> (10 ^ 21 \<le> \<bar>r\<bar>)" and "\<not> r < 0"
      using that by simp_all
    then show ?thesis
      by (simp add: toFixed1_def Let_def)
  qed
  then show ?thesis
    by (simp add: rating_text_def rating_or_default_def js_or_def toFixed1_four)
qed

theorem rating_text_shown_witness:
  "rating_text book_potter = Ok ''4.5''
   \<and> rating_text book_gatsby = Ok ''4.2''
   \<and> rating_text (JObj [(''title'', JStr (ascii ''Deep Work''))]) = Ok ''4.0''"
proof -
  have a: "get_prop book_potter ''rating'' = Ok (JNum (9 / 2)) \<and> toFixed1 (9 / 2) = Ok ''4.5''"
    by (simp add: mock_defs rating_4_5_def toFixed_eval)
  have b: "get_prop book_gatsby ''rating'' = Ok (JNum rating_4_2) \<and> rating_4_2 \<noteq> 0
      \<and> toFixed1 rating_4_2 = Ok ''4.2''"
    by (simp add: mock_defs rating_4_2_def toFixed_eval)
  have c: "get_prop (JObj [(''title'', JStr (ascii ''Deep Work''))]) ''rating'' = Ok JUndefined"
    by simp
  have "rating_text book_potter = Ok ''4.5''"
    using rating_text_shown [of book_potter "9 / 2"] a by simp
  moreover have "rating_text book_gatsby = Ok ''4.2''"
    using rating_text_shown [of book_gatsby rating_4_2] b by simp
  moreover have "rating_text (JObj [(''title'', JStr (ascii ''Deep Work''))]) = Ok ''4.0''"
    using rating_text_shown [of "JObj [(''title'', JStr (ascii ''Deep Work''))]" _ JUndefined] c by simp
  ultimately show ?thesis by simp
qed

end
